theory Spec2Isabelle
  imports Main
begin

section \<open>Values that cross the boundary of the program\<close>

text \<open>
  The embedding follows \<^verbatim>\<open>src/mtls.py\<close>, class \<^verbatim>\<open>MutualTLS\<close>. Python values that the
  program hands to \<^verbatim>\<open>requests\<close> or receives from it are JSON values; Python's \<^verbatim>\<open>None\<close> is
  \<open>JNull\<close>, a \<^verbatim>\<open>str\<close> is \<open>JString\<close> and a \<^verbatim>\<open>dict\<close> literal is \<open>JObject\<close> with its entries in
  insertion order.
\<close>

datatype json =
    JNull
  | JBool bool
  | JNumber int
  | JString string
  | JArray "json list"
  | JObject "(string \<times> json) list"

text \<open>
  The source has no \<^verbatim>\<open>raise\<close> of its own: every failure is an exception of a library call that
  propagates to the caller. Each constructor is one such exception, named after the Python
  class and the call that raises it.
\<close>

datatype error =
    NoSectionError string
      \<comment> \<open>\<^verbatim>\<open>config.get(section, _)\<close>: the section is not in the configuration\<close>
  | NoOptionError string string
      \<comment> \<open>\<^verbatim>\<open>config.get(section, option)\<close>: option, then section, as \<^verbatim>\<open>configparser\<close> orders them\<close>
  | InterpolationSyntaxError string string
      \<comment> \<open>\<^verbatim>\<open>config.get\<close>: the stored value has a \<^verbatim>\<open>%\<close> that starts no reference; option, section\<close>
  | InterpolationMissingOptionError string string string
      \<comment> \<open>\<^verbatim>\<open>config.get\<close>: the stored value refers to an option that is not there; option, section, reference\<close>
  | InterpolationDepthError string string
      \<comment> \<open>\<^verbatim>\<open>config.get\<close>: references nested too deeply; option, section\<close>
  | GpgValueError
      \<comment> \<open>\<^verbatim>\<open>ValueError\<close> of \<^verbatim>\<open>gpg.encrypt\<close>: no recipient was given\<close>
  | PemValueError
      \<comment> \<open>\<^verbatim>\<open>ValueError\<close> of \<^verbatim>\<open>serialization.load_pem_private_key\<close>: the bytes are not a private key\<close>
  | NameAttributeValueError string
      \<comment> \<open>\<^verbatim>\<open>ValueError\<close> of \<^verbatim>\<open>x509.NameAttribute\<close>: the library rejects the value\<close>
  | RequestException
      \<comment> \<open>\<^verbatim>\<open>requests.post\<close>: no response was obtained\<close>
  | JSONDecodeError
      \<comment> \<open>\<^verbatim>\<open>r.json()\<close>: the response body is not JSON\<close>

subsection \<open>Keys and certificate signing requests\<close>

text \<open>
  A private key is known to the program only through the parameters it was generated with
  and its secret material. \<^verbatim>\<open>rsa.generate_private_key(public_exponent, key_size, backend)\<close>
  draws the material from the system's randomness, here the seed of the world.
\<close>

datatype private_key = RSAPrivateKey (public_exponent: nat) (key_size: nat) (material: nat)

definition rsa_generate_private_key :: "nat \<Rightarrow> nat \<Rightarrow> nat \<Rightarrow> private_key" where
  "rsa_generate_private_key e bits seed = RSAPrivateKey e bits seed"

datatype encoding = PEM | DER
datatype private_format = TraditionalOpenSSL | PKCS8
datatype key_encryption = NoEncryption | BestAvailableEncryption string

datatype name_oid =
    COUNTRY_NAME
  | STATE_OR_PROVINCE_NAME
  | LOCALITY_NAME
  | ORGANIZATION_NAME
  | COMMON_NAME

datatype name_attribute = NameAttribute name_oid string

datatype hash_algorithm = MD5 | SHA1 | SHA256 | SHA384 | SHA512

text \<open>
  \<^verbatim>\<open>x509.CertificateSigningRequestBuilder().subject_name(x509.Name(attrs)).sign(key, hash, backend)\<close>
  yields a request that carries the subject (a sequence: \<^verbatim>\<open>x509.Name\<close> keeps the order of the
  list it is given), the key that signed it and the digest of the signature.
\<close>

record csr =
  subject :: "name_attribute list"
  signing_key :: private_key
  digest :: hash_algorithm

definition sign_request :: "name_attribute list \<Rightarrow> private_key \<Rightarrow> hash_algorithm \<Rightarrow> csr" where
  "sign_request attrs key h = \<lparr>subject = attrs, signing_key = key, digest = h\<rparr>"

subsection \<open>The result object of python-gnupg\<close>

text \<open>
  When \<^verbatim>\<open>gpg.encrypt\<close> and \<^verbatim>\<open>gpg.decrypt_file\<close> run gpg they do not raise on a cryptographic
  failure: they return a result object whose \<^verbatim>\<open>ok\<close> flag tells whether the operation
  succeeded and whose \<^verbatim>\<open>str()\<close> is the output text (empty when nothing was produced).
\<close>

record crypt =
  ok :: bool
  data :: string

section \<open>Environment, world and effects\<close>

text \<open>
  What stays fixed during one invocation: the parsed configuration, the selected server,
  the key path \<^verbatim>\<open>CONFIG_FOLDER_PATH/USER_KEY\<close>, the \<^verbatim>\<open>HOST\<close> variable of the process
  environment, and the library capabilities the program consumes. The capabilities are
  parameters: every theorem below holds for whatever they compute.

  \<open>config e section\<close> is the mapping in which \<^verbatim>\<open>config.get(section, _)\<close> looks an option up: the
  options stored for the section together with the defaults, each with its text as stored
  in the file; it is \<open>None\<close> when the parser knows no such section. \<open>before_get\<close> is the
  interpolation that \<^verbatim>\<open>get\<close> applies to a stored text before it returns it (the parser is
  \<^verbatim>\<open>ConfigParser()\<close>, so this is \<^verbatim>\<open>BasicInterpolation.before_get(parser, section, option,
  value, defaults)\<close>): it yields the value returned, or the interpolation error raised.
\<close>

record env =
  config :: "string \<Rightarrow> (string \<rightharpoonup> string) option"
  before_get :: "string \<Rightarrow> string \<Rightarrow> string \<Rightarrow> (string \<rightharpoonup> string) \<Rightarrow> error + string"
  server :: string
  key_path :: string
  environ_HOST :: "string option"
  gpg_encrypt :: "string \<Rightarrow> string \<Rightarrow> bool \<Rightarrow> crypt"
  gpg_decrypt_file :: "string \<Rightarrow> crypt"
  load_pem_private_key :: "string \<Rightarrow> private_key option"
  private_bytes :: "private_key \<Rightarrow> encoding \<Rightarrow> private_format \<Rightarrow> key_encryption \<Rightarrow> string"
  name_attribute_ok :: "name_oid \<Rightarrow> string \<Rightarrow> bool"
  csr_public_bytes :: "csr \<Rightarrow> encoding \<Rightarrow> string"
  requests_post :: "string \<Rightarrow> json \<Rightarrow> string option"
  response_json :: "string \<Rightarrow> json option"
  py_str :: "json \<Rightarrow> string"

text \<open>
  The effects of the program, in the order they happen. Pure library calls (encoding a key,
  parsing PEM text, looking an option up) are not effects and are not logged. \<open>GpgEncrypt\<close>
  is a run of gpg for \<^verbatim>\<open>gpg.encrypt\<close>; \<open>HttpPost\<close> is the call of \<^verbatim>\<open>requests.post\<close> with the
  submission, which \<^verbatim>\<open>requests\<close> then sends or fails to send.
\<close>

datatype event =
    Echo string
      \<comment> \<open>\<^verbatim>\<open>click.echo(msg)\<close>\<close>
  | ReadFile string
      \<comment> \<open>\<^verbatim>\<open>open(path, 'rb')\<close>, read by \<^verbatim>\<open>decrypt_file\<close>\<close>
  | GpgDecrypt string
      \<comment> \<open>\<^verbatim>\<open>gpg.decrypt_file\<close> on these file contents\<close>
  | GenerateKey nat nat
      \<comment> \<open>\<^verbatim>\<open>rsa.generate_private_key\<close>: public exponent, key size\<close>
  | GpgEncrypt string string bool
      \<comment> \<open>\<^verbatim>\<open>gpg.encrypt(data, recipient, sign=sign)\<close>\<close>
  | WriteFile string string
      \<comment> \<open>\<^verbatim>\<open>open(path, 'w')\<close> and \<^verbatim>\<open>f.write(contents)\<close>\<close>
  | SignCsr "name_attribute list" private_key hash_algorithm
      \<comment> \<open>\<^verbatim>\<open>builder.sign(key, hash, backend)\<close>\<close>
  | HttpPost string json
      \<comment> \<open>\<^verbatim>\<open>requests.post(url, json=payload)\<close>\<close>
  | Print string
      \<comment> \<open>\<^verbatim>\<open>print(text)\<close>\<close>

record world =
  files :: "string \<rightharpoonup> string"
  events :: "event list"
  seed :: nat

definition emit :: "event \<Rightarrow> world \<Rightarrow> world" where
  "emit ev w = w\<lparr>events := events w @ [ev]\<rparr>"

definition echo :: "string \<Rightarrow> world \<Rightarrow> world" where
  "echo msg w = emit (Echo msg) w"

definition write_file :: "string \<Rightarrow> string \<Rightarrow> world \<Rightarrow> world" where
  "write_file path contents w =
     emit (WriteFile path contents) (w\<lparr>files := (files w)(path \<mapsto> contents)\<rparr>)"

text \<open>
  \<^verbatim>\<open>self.config.get(section, option)\<close>: the exception that names what is missing, or else
  what interpolation makes of the stored text: a value or an interpolation error.
\<close>

definition config_get :: "env \<Rightarrow> string \<Rightarrow> string \<Rightarrow> error + string" where
  "config_get e section option =
     (case config e section of
        None \<Rightarrow> Inl (NoSectionError section)
      | Some d \<Rightarrow>
          (case d option of
             None \<Rightarrow> Inl (NoOptionError option section)
           | Some stored \<Rightarrow> before_get e section option stored d))"

section \<open>The operations of \<^verbatim>\<open>MutualTLS\<close>\<close>

text \<open>
  \<^verbatim>\<open>encrypt(self, data, recipient, sign=False)\<close>, lines 97 to 101. \<^verbatim>\<open>gpg.encrypt\<close> raises
  \<^verbatim>\<open>ValueError\<close> before it runs gpg when the recipient is empty (\<^verbatim>\<open>if not recipients\<close>);
  otherwise it runs gpg and returns the result object.
\<close>

definition encrypt ::
  "env \<Rightarrow> string \<Rightarrow> string \<Rightarrow> bool \<Rightarrow> world \<Rightarrow> (error + crypt) \<times> world" where
  "encrypt e d recipient sign w =
     (let w1 = (if sign then echo ''Encrypting and Signing data...'' w else w)
      in if recipient = []
         then (Inl GpgValueError, w1)
         else (Inr (gpg_encrypt e d recipient sign), emit (GpgEncrypt d recipient sign) w1))"

text \<open>
  \<^verbatim>\<open>get_key_or_generate(self)\<close>, lines 103 to 138. \<^verbatim>\<open>os.path.isfile(key_path)\<close> is the test
  whether the file map has the key path; \<^verbatim>\<open>bytes(str(key_data), 'utf-8')\<close> is the text of the
  decryption result, whatever its \<open>ok\<close> flag.
\<close>

definition get_key_or_generate :: "env \<Rightarrow> world \<Rightarrow> (error + private_key) \<times> world" where
  "get_key_or_generate e w =
     (case files w (key_path e) of
        Some contents \<Rightarrow>
          (let w1 = echo ''Decrypting User Key...'' w;
               w2 = emit (ReadFile (key_path e)) w1;
               key_data = gpg_decrypt_file e contents;
               w3 = emit (GpgDecrypt contents) w2;
               byte_key_data = data key_data
           in (case load_pem_private_key e byte_key_data of
                 None \<Rightarrow> (Inl PemValueError, w3)
               | Some key \<Rightarrow> (Inr key, w3)))
      | None \<Rightarrow>
          (let w1 = echo ''Generating User Key'' w;
               key = rsa_generate_private_key 65537 4096 (seed w1);
               w2 = emit (GenerateKey 65537 4096) (w1\<lparr>seed := Suc (seed w1)\<rparr>);
               key_data = private_bytes e key PEM TraditionalOpenSSL NoEncryption
           in (case config_get e (server e) ''fingerprint'' of
                 Inl err \<Rightarrow> (Inl err, w2)
               | Inr user_fingerprint \<Rightarrow>
                   (case encrypt e key_data user_fingerprint False w2 of
                      (Inl err, w3) \<Rightarrow> (Inl err, w3)
                    | (Inr encrypted_key, w3) \<Rightarrow>
                        (case config_get e (server e) ''email'' of
                           Inl err \<Rightarrow> (Inl err, w3)
                         | Inr user_email \<Rightarrow>
                             (let w4 = echo (''Encrypting file to '' @ user_email) w3;
                                  w5 = write_file (key_path e) (data encrypted_key) w4
                              in (Inr key, w5)))))))"

text \<open>
  \<^verbatim>\<open>x509.NameAttribute(oid, value)\<close> validates its value inside the library; the list
  literal of \<^verbatim>\<open>generate_csr\<close> builds its elements left to right, so the first rejected value
  raises.
\<close>

fun name_attributes :: "env \<Rightarrow> (name_oid \<times> string) list \<Rightarrow> error + name_attribute list" where
  "name_attributes e [] = Inr []"
| "name_attributes e ((oid, v) # rest) =
     (if name_attribute_ok e oid v
      then (case name_attributes e rest of
              Inl err \<Rightarrow> Inl err
            | Inr attrs \<Rightarrow> Inr (NameAttribute oid v # attrs))
      else Inl (NameAttributeValueError v))"

text \<open>\<^verbatim>\<open>generate_csr(self, key)\<close>, lines 140 to 153.\<close>

definition generate_csr :: "env \<Rightarrow> private_key \<Rightarrow> world \<Rightarrow> (error + csr) \<times> world" where
  "generate_csr e key w =
     (case config_get e (server e) ''country'' of
        Inl err \<Rightarrow> (Inl err, w)
      | Inr country \<Rightarrow>
     (case config_get e (server e) ''state'' of
        Inl err \<Rightarrow> (Inl err, w)
      | Inr state \<Rightarrow>
     (case config_get e (server e) ''locality'' of
        Inl err \<Rightarrow> (Inl err, w)
      | Inr locality \<Rightarrow>
     (case config_get e (server e) ''organization_name'' of
        Inl err \<Rightarrow> (Inl err, w)
      | Inr organization_name \<Rightarrow>
     (case config_get e (server e) ''common_name'' of
        Inl err \<Rightarrow> (Inl err, w)
      | Inr common_name \<Rightarrow>
     (case name_attributes e
             [(COUNTRY_NAME, country),
              (STATE_OR_PROVINCE_NAME, state),
              (LOCALITY_NAME, locality),
              (ORGANIZATION_NAME, organization_name),
              (COMMON_NAME, common_name)] of
        Inl err \<Rightarrow> (Inl err, w)
      | Inr attrs \<Rightarrow>
          (Inr (sign_request attrs key SHA256), emit (SignCsr attrs key SHA256) w)))))))"

text \<open>
  \<^verbatim>\<open>encrypt_and_send_to_server(self, csr)\<close>, lines 155 to 169. The body ends after the
  \<^verbatim>\<open>print\<close> with no \<^verbatim>\<open>return\<close> statement, so the value of a call that completes is \<^verbatim>\<open>None\<close>.
\<close>

definition encrypt_and_send_to_server :: "env \<Rightarrow> csr \<Rightarrow> world \<Rightarrow> (error + json) \<times> world" where
  "encrypt_and_send_to_server e c w =
     (case config_get e (server e) ''server_fingerprint'' of
        Inl err \<Rightarrow> (Inl err, w)
      | Inr server_fingerprint \<Rightarrow>
          (case encrypt e (csr_public_bytes e c PEM) server_fingerprint True w of
             (Inl err, w1) \<Rightarrow> (Inl err, w1)
           | (Inr enc_csr, w1) \<Rightarrow>
               (let payload = JObject
                      [(''csr'', JString (data enc_csr)),
                       (''lifetime'', JString ''18''),
                       (''host'', (case environ_HOST e of None \<Rightarrow> JNull | Some h \<Rightarrow> JString h)),
                       (''type'', JString ''CREATE_CERTIFICATE'')]
                in (case config_get e (server e) ''url'' of
                      Inl err \<Rightarrow> (Inl err, w1)
                    | Inr server_url \<Rightarrow>
                        (let w2 = emit (HttpPost server_url payload) w1
                         in (case requests_post e server_url payload of
                               None \<Rightarrow> (Inl RequestException, w2)
                             | Some body \<Rightarrow>
                                 (case response_json e body of
                                    None \<Rightarrow> (Inl JSONDecodeError, w2)
                                  | Some response \<Rightarrow>
                                      (Inr JNull, emit (Print (py_str e response)) w2))))))))"

text \<open>
  \<^verbatim>\<open>run(self)\<close>, lines 52 to 55: the three stages in sequence; an exception of one stage ends
  the run. The value bound to \<^verbatim>\<open>cert\<close> is not used and \<^verbatim>\<open>run\<close> itself returns \<^verbatim>\<open>None\<close>.
\<close>

definition run :: "env \<Rightarrow> world \<Rightarrow> (error + json) \<times> world" where
  "run e w =
     (case get_key_or_generate e w of
        (Inl err, w1) \<Rightarrow> (Inl err, w1)
      | (Inr key, w1) \<Rightarrow>
          (case generate_csr e key w1 of
             (Inl err, w2) \<Rightarrow> (Inl err, w2)
           | (Inr c, w2) \<Rightarrow>
               (case encrypt_and_send_to_server e c w2 of
                  (Inl err, w3) \<Rightarrow> (Inl err, w3)
                | (Inr cert, w3) \<Rightarrow> (Inr JNull, w3))))"

section \<open>Reading the log of effects\<close>

fun posts :: "event list \<Rightarrow> (string \<times> json) list" where
  "posts [] = []"
| "posts (HttpPost url body # tr) = (url, body) # posts tr"
| "posts (_ # tr) = posts tr"

fun seals :: "event list \<Rightarrow> (string \<times> string \<times> bool) list" where
  "seals [] = []"
| "seals (GpgEncrypt d recipient sign # tr) = (d, recipient, sign) # seals tr"
| "seals (_ # tr) = seals tr"

fun writes :: "event list \<Rightarrow> (string \<times> string) list" where
  "writes [] = []"
| "writes (WriteFile path contents # tr) = (path, contents) # writes tr"
| "writes (_ # tr) = writes tr"

fun reads :: "event list \<Rightarrow> string list" where
  "reads [] = []"
| "reads (ReadFile path # tr) = path # reads tr"
| "reads (_ # tr) = reads tr"

fun decrypts :: "event list \<Rightarrow> string list" where
  "decrypts [] = []"
| "decrypts (GpgDecrypt contents # tr) = contents # decrypts tr"
| "decrypts (_ # tr) = decrypts tr"

fun generations :: "event list \<Rightarrow> (nat \<times> nat) list" where
  "generations [] = []"
| "generations (GenerateKey e bits # tr) = (e, bits) # generations tr"
| "generations (_ # tr) = generations tr"

fun signings :: "event list \<Rightarrow> (name_attribute list \<times> private_key \<times> hash_algorithm) list" where
  "signings [] = []"
| "signings (SignCsr attrs key h # tr) = (attrs, key, h) # signings tr"
| "signings (_ # tr) = signings tr"

text \<open>The effects a call adds to the log of the world it starts in.\<close>

definition effects :: "world \<Rightarrow> world \<Rightarrow> event list" where
  "effects w w' = drop (length (events w)) (events w')"

text \<open>
  The two effect sets of key resolution, as they are read off a log: the read set is the
  read and the decryption of the sealed key file; the generate set is the generation of a
  keypair, the sealing of its encoding and the write of the key file.
\<close>

definition read_decrypt_occurs :: "event list \<Rightarrow> bool" where
  "read_decrypt_occurs tr = (reads tr \<noteq> [] \<and> decrypts tr \<noteq> [])"

definition generate_seal_write_occurs :: "event list \<Rightarrow> bool" where
  "generate_seal_write_occurs tr = (generations tr \<noteq> [] \<and> seals tr \<noteq> [] \<and> writes tr \<noteq> [])"

text \<open>The subject attributes \<^verbatim>\<open>generate_csr\<close> reads, in the order it reads them.\<close>

definition subject_attributes :: "string list" where
  "subject_attributes = [''country'', ''state'', ''locality'', ''organization_name'', ''common_name'']"

text \<open>The exception of the first lookup that raises, in a sequence of lookups.\<close>

fun first_error :: "(error + string) list \<Rightarrow> error option" where
  "first_error [] = None"
| "first_error (Inl err # rest) = Some err"
| "first_error (Inr v # rest) = first_error rest"

text \<open>
  The order of sealing and release along a log: scanning it from the start with the seals
  seen so far, every write of a file holds the text of an earlier seal made without a
  signature, and every submission carries as its \<^verbatim>\<open>csr\<close> the text of an earlier seal made
  with a signature.
\<close>

definition payload_csr :: "json \<Rightarrow> json option" where
  "payload_csr body = (case body of JObject entries \<Rightarrow> map_of entries ''csr'' | _ \<Rightarrow> None)"

fun sealed_before_release :: "env \<Rightarrow> (string \<times> string \<times> bool) list \<Rightarrow> event list \<Rightarrow> bool" where
  "sealed_before_release e seen [] = True"
| "sealed_before_release e seen (GpgEncrypt d recipient sign # tr) =
     sealed_before_release e ((d, recipient, sign) # seen) tr"
| "sealed_before_release e seen (WriteFile path contents # tr) =
     (list_ex (\<lambda>(d, recipient, sign). \<not> sign \<and> contents = data (gpg_encrypt e d recipient sign)) seen
      \<and> sealed_before_release e seen tr)"
| "sealed_before_release e seen (HttpPost url body # tr) =
     (list_ex (\<lambda>(d, recipient, sign).
          sign \<and> payload_csr body = Some (JString (data (gpg_encrypt e d recipient sign)))) seen
      \<and> sealed_before_release e seen tr)"
| "sealed_before_release e seen (_ # tr) = sealed_before_release e seen tr"

section \<open>A concrete identity and in-memory capabilities\<close>

text \<open>
  A stand-in for the interpolation capability that follows \<^verbatim>\<open>BasicInterpolation\<close> of
  \<^verbatim>\<open>configparser\<close>: text is copied up to a \<^verbatim>\<open>%\<close>; \<^verbatim>\<open>%%\<close> stands for one \<^verbatim>\<open>%\<close>; \<^verbatim>\<open>%(name)s\<close> is
  replaced by the stored text of the option \<^verbatim>\<open>name\<close> (in lower case), itself interpolated
  one level deeper when it holds a \<^verbatim>\<open>%\<close>; any other \<^verbatim>\<open>%\<close> raises
  \<^verbatim>\<open>InterpolationSyntaxError\<close>, a reference to an option that is not there raises
  \<^verbatim>\<open>InterpolationMissingOptionError\<close>, and a depth beyond 10 raises
  \<^verbatim>\<open>InterpolationDepthError\<close>. Lower case is taken for ASCII letters only.
\<close>

definition ascii_lower :: "char \<Rightarrow> char" where
  "ascii_lower c =
     (case map_of (zip ''ABCDEFGHIJKLMNOPQRSTUVWXYZ'' ''abcdefghijklmnopqrstuvwxyz'') c of
        None \<Rightarrow> c
      | Some l \<Rightarrow> l)"

fun append_result :: "error + string \<Rightarrow> error + string \<Rightarrow> error + string" where
  "append_result (Inl err) r = Inl err"
| "append_result (Inr a) (Inl err) = Inl err"
| "append_result (Inr a) (Inr b) = Inr (a @ b)"

function interpolate_some ::
  "(string \<rightharpoonup> string) \<Rightarrow> string \<Rightarrow> string \<Rightarrow> nat \<Rightarrow> string \<Rightarrow> error + string" where
  "interpolate_some m option section depth rest =
     (if depth > 10 then Inl (InterpolationDepthError option section)
      else (case rest of
              [] \<Rightarrow> Inr []
            | c # cs \<Rightarrow>
                if c \<noteq> CHR ''%''
                then append_result (Inr [c]) (interpolate_some m option section depth cs)
                else (case cs of
                        [] \<Rightarrow> Inl (InterpolationSyntaxError option section)
                      | c2 # cs2 \<Rightarrow>
                          if c2 = CHR ''%''
                          then append_result (Inr ''%'') (interpolate_some m option section depth cs2)
                          else if c2 = CHR ''(''
                          then (let name = takeWhile (\<lambda>x. x \<noteq> CHR '')'') cs2;
                                    after = dropWhile (\<lambda>x. x \<noteq> CHR '')'') cs2
                                in if name = [] \<or> take 2 after \<noteq> '')s''
                                   then Inl (InterpolationSyntaxError option section)
                                   else (case m (map ascii_lower name) of
                                           None \<Rightarrow> Inl (InterpolationMissingOptionError option section
                                                      (map ascii_lower name))
                                         | Some v \<Rightarrow>
                                             append_result
                                               (if CHR ''%'' \<in> set v
                                                then interpolate_some m option section (Suc depth) v
                                                else Inr v)
                                               (interpolate_some m option section depth (drop 2 after))))
                          else Inl (InterpolationSyntaxError option section))))"
  by pat_completeness auto
termination
  apply (relation "inv_image (less_than <*lex*> less_than)
                     (\<lambda>(m, option, section, depth, rest). (11 - depth, length rest))")
  apply (auto simp add: less_Suc_eq_le)
  apply (rule order_trans [OF diff_le_self])
  apply (rule order_trans [OF length_dropWhile_le])
  apply simp
  done

declare interpolate_some.simps [simp del]

definition basic_interpolation ::
  "string \<Rightarrow> string \<Rightarrow> string \<Rightarrow> (string \<rightharpoonup> string) \<Rightarrow> error + string" where
  "basic_interpolation section option stored defaults =
     interpolate_some defaults option section 1 stored"

text \<open>
  The identity of the end-to-end scenario, with stand-ins for the other capabilities:
  sealing succeeds for the two known fingerprints and yields nothing for any other
  recipient; decryption succeeds on text sealed to the user's own fingerprint; the server
  answers with a JSON object that holds a certificate.
\<close>

definition example_record :: "string \<rightharpoonup> string" where
  "example_record = map_of
     [(''email'', ''alice@acme.com''),
      (''url'', ''https://ca.example.com/issue''),
      (''fingerprint'', ''AAAA''),
      (''server_fingerprint'', ''BBBB''),
      (''country'', ''US''),
      (''state'', ''CA''),
      (''locality'', ''SF''),
      (''organization_name'', ''Acme''),
      (''common_name'', ''alice@acme.com'')]"

definition env_of_record :: "(string \<rightharpoonup> string) \<Rightarrow> env" where
  \<open>env_of_record r =
     \<lparr>config = (\<lambda>s. if s = ''ca'' then Some r else None),
      before_get = basic_interpolation,
      server = ''ca'',
      key_path = ''/home/alice/.config/mtls/alice.key.gpg'',
      environ_HOST = None,
      gpg_encrypt = (\<lambda>d r s.
         if r = ''AAAA'' \<or> r = ''BBBB''
         then \<lparr>ok = True, data = (if s then ''signed:'' else ''sealed:'') @ r @ '':'' @ d\<rparr>
         else \<lparr>ok = False, data = ''''\<rparr>),
      gpg_decrypt_file = (\<lambda>c.
         if take 12 c = ''sealed:AAAA:''
         then \<lparr>ok = True, data = drop 12 c\<rparr>
         else \<lparr>ok = False, data = ''''\<rparr>),
      load_pem_private_key = (\<lambda>b.
         if b = ''RSA PRIVATE KEY'' then Some (RSAPrivateKey 65537 4096 0) else None),
      private_bytes = (\<lambda>k enc fmt ke. ''RSA PRIVATE KEY''),
      name_attribute_ok = (\<lambda>oid v. if oid = COUNTRY_NAME then length v = 2 else v \<noteq> []),
      csr_public_bytes = (\<lambda>c enc. ''CERTIFICATE REQUEST''),
      requests_post = (\<lambda>url body.
         if url = ''https://ca.example.com/issue'' then Some ''{"cert": "CERT"}'' else None),
      response_json = (\<lambda>b.
         if b = ''{"cert": "CERT"}'' then Some (JObject [(''cert'', JString ''CERT'')]) else None),
      py_str = (\<lambda>j.
         if j = JObject [(''cert'', JString ''CERT'')] then ''{'cert': 'CERT'}'' else ''None'')\<rparr>\<close>

definition example_env :: env where
  "example_env = env_of_record example_record"

text \<open>The same identity with one option removed, or with one option set to another text.\<close>

definition env_without :: "string \<Rightarrow> env" where
  "env_without option = env_of_record (example_record(option := None))"

definition env_with :: "string \<Rightarrow> string \<Rightarrow> env" where
  "env_with option v = env_of_record (example_record(option \<mapsto> v))"

definition fresh_world :: world where
  "fresh_world = \<lparr>files = Map.empty, events = [], seed = 0\<rparr>"

definition world_with_key :: "string \<Rightarrow> world" where
  "world_with_key contents =
     \<lparr>files = [''/home/alice/.config/mtls/alice.key.gpg'' \<mapsto> contents], events = [], seed = 0\<rparr>"

definition example_key :: private_key where
  "example_key = RSAPrivateKey 65537 4096 0"

definition example_csr :: csr where
  "example_csr = sign_request
     [NameAttribute COUNTRY_NAME ''US'',
      NameAttribute STATE_OR_PROVINCE_NAME ''CA'',
      NameAttribute LOCALITY_NAME ''SF'',
      NameAttribute ORGANIZATION_NAME ''Acme'',
      NameAttribute COMMON_NAME ''alice@acme.com'']
     example_key SHA256"

section \<open>Facts about logs and the elementary effects\<close>

lemma posts_append: "posts (xs @ ys) = posts xs @ posts ys"
  by (induction xs rule: posts.induct) simp_all

lemma seals_append: "seals (xs @ ys) = seals xs @ seals ys"
  by (induction xs rule: seals.induct) simp_all

lemma writes_append: "writes (xs @ ys) = writes xs @ writes ys"
  by (induction xs rule: writes.induct) simp_all

lemma reads_append: "reads (xs @ ys) = reads xs @ reads ys"
  by (induction xs rule: reads.induct) simp_all

lemma decrypts_append: "decrypts (xs @ ys) = decrypts xs @ decrypts ys"
  by (induction xs rule: decrypts.induct) simp_all

lemma generations_append: "generations (xs @ ys) = generations xs @ generations ys"
  by (induction xs rule: generations.induct) simp_all

lemma signings_append: "signings (xs @ ys) = signings xs @ signings ys"
  by (induction xs rule: signings.induct) simp_all

section \<open>Text without a percent sign passes interpolation unchanged\<close>

lemma interpolate_some_plain:
  "CHR ''%'' \<notin> set v \<Longrightarrow> depth \<le> 10 \<Longrightarrow> interpolate_some m option section depth v = Inr v"
  by (induction v) (auto simp add: interpolate_some.simps)

lemma basic_interpolation_plain:
  "CHR ''%'' \<notin> set v \<Longrightarrow> basic_interpolation section option v d = Inr v"
  by (simp add: basic_interpolation_def interpolate_some_plain)

section \<open>Key resolution: what a call does, by case\<close>

lemma get_key_or_generate_effects:
  "effects w (snd (get_key_or_generate e w)) =
     (case files w (key_path e) of
        Some contents \<Rightarrow>
          [Echo ''Decrypting User Key...'', ReadFile (key_path e), GpgDecrypt contents]
      | None \<Rightarrow>
          [Echo ''Generating User Key'', GenerateKey 65537 4096] @
          (case config_get e (server e) ''fingerprint'' of
             Inl err \<Rightarrow> []
           | Inr fp \<Rightarrow>
               if fp = [] then []
               else
                 [GpgEncrypt (private_bytes e (rsa_generate_private_key 65537 4096 (seed w))
                                PEM TraditionalOpenSSL NoEncryption) fp False] @
                 (case config_get e (server e) ''email'' of
                    Inl err \<Rightarrow> []
                  | Inr em \<Rightarrow>
                      [Echo (''Encrypting file to '' @ em),
                       WriteFile (key_path e)
                         (data (gpg_encrypt e
                                  (private_bytes e (rsa_generate_private_key 65537 4096 (seed w))
                                     PEM TraditionalOpenSSL NoEncryption) fp False))])))"
  by (auto simp add: get_key_or_generate_def encrypt_def echo_def emit_def write_file_def effects_def
        Let_def split: sum.splits option.splits)

lemma get_key_or_generate_events:
  "events (snd (get_key_or_generate e w)) = events w @ effects w (snd (get_key_or_generate e w))"
  by (auto simp add: get_key_or_generate_def encrypt_def echo_def emit_def write_file_def effects_def
        Let_def split: sum.splits option.splits)

lemma get_key_or_generate_files:
  "files (snd (get_key_or_generate e w)) =
     (case files w (key_path e) of
        Some contents \<Rightarrow> files w
      | None \<Rightarrow>
          (case config_get e (server e) ''fingerprint'' of
             Inl err \<Rightarrow> files w
           | Inr fp \<Rightarrow>
               if fp = [] then files w
               else
                 (case config_get e (server e) ''email'' of
                    Inl err \<Rightarrow> files w
                  | Inr em \<Rightarrow>
                      (files w)(key_path e \<mapsto>
                         data (gpg_encrypt e
                                 (private_bytes e (rsa_generate_private_key 65537 4096 (seed w))
                                    PEM TraditionalOpenSSL NoEncryption) fp False)))))"
  by (auto simp add: get_key_or_generate_def encrypt_def echo_def emit_def write_file_def
        Let_def split: sum.splits option.splits)

lemma get_key_or_generate_result:
  "fst (get_key_or_generate e w) =
     (case files w (key_path e) of
        Some contents \<Rightarrow>
          (case load_pem_private_key e (data (gpg_decrypt_file e contents)) of
             None \<Rightarrow> Inl PemValueError
           | Some key \<Rightarrow> Inr key)
      | None \<Rightarrow>
          (case config_get e (server e) ''fingerprint'' of
             Inl err \<Rightarrow> Inl err
           | Inr fp \<Rightarrow>
               if fp = [] then Inl GpgValueError
               else
                 (case config_get e (server e) ''email'' of
                    Inl err \<Rightarrow> Inl err
                  | Inr em \<Rightarrow> Inr (rsa_generate_private_key 65537 4096 (seed w)))))"
  by (auto simp add: get_key_or_generate_def encrypt_def echo_def emit_def write_file_def
        Let_def split: sum.splits option.splits)

lemma get_key_or_generate_seed:
  "seed (snd (get_key_or_generate e w)) =
     (case files w (key_path e) of Some contents \<Rightarrow> seed w | None \<Rightarrow> Suc (seed w))"
  by (auto simp add: get_key_or_generate_def encrypt_def echo_def emit_def write_file_def
        Let_def split: sum.splits option.splits)

section \<open>Submission to the certificate authority\<close>

text \<open>
  Claim C1 says that the \<^verbatim>\<open>csr\<close> of every submission is the sealed and signed CSR text. The
  code never looks at the outcome of sealing: with a server fingerprint that the sealing
  capability cannot resolve, sealing fails and produces nothing, and the submission is
  made all the same, with the empty string as its \<^verbatim>\<open>csr\<close>.
\<close>

theorem unsealed_submission_counterexample:
  "config_get (env_with ''server_fingerprint'' ''ZZZZ'') ''ca'' ''server_fingerprint'' = Inr ''ZZZZ''
   \<and> \<not> ok (gpg_encrypt (env_with ''server_fingerprint'' ''ZZZZ'')
              (csr_public_bytes (env_with ''server_fingerprint'' ''ZZZZ'') example_csr PEM)
              ''ZZZZ'' True)
   \<and> posts (effects fresh_world
         (snd (encrypt_and_send_to_server (env_with ''server_fingerprint'' ''ZZZZ'')
                 example_csr fresh_world))) =
       [(''https://ca.example.com/issue'',
         JObject
           [(''csr'', JString ''''),
            (''lifetime'', JString ''18''),
            (''host'', JNull),
            (''type'', JString ''CREATE_CERTIFICATE'')])]"
  by (simp add: encrypt_and_send_to_server_def encrypt_def echo_def emit_def effects_def Let_def
        config_get_def env_with_def env_of_record_def basic_interpolation_plain
        example_record_def fresh_world_def)

text \<open>
  Claim C1, amended. Whatever the environment, the capabilities and the starting world,
  \<^verbatim>\<open>encrypt_and_send_to_server\<close> hands at most one submission to \<^verbatim>\<open>requests.post\<close>. It hands
  one exactly when \<^verbatim>\<open>config.get\<close> returns a server fingerprint that is not empty and returns
  the \<^verbatim>\<open>url\<close>; otherwise \<^verbatim>\<open>config.get\<close> or \<^verbatim>\<open>gpg.encrypt\<close> has raised before. The submission is
  an HTTP POST to the configured \<^verbatim>\<open>url\<close> whose JSON body is the object with the four keys
  \<^verbatim>\<open>csr\<close>, \<^verbatim>\<open>lifetime\<close> (the string 18), \<^verbatim>\<open>host\<close> (the \<^verbatim>\<open>HOST\<close> variable, null when it is not set)
  and \<^verbatim>\<open>type\<close> (\<^verbatim>\<open>CREATE_CERTIFICATE\<close>), in this order, where \<^verbatim>\<open>csr\<close> is the text of the result
  of sealing the CSR with a signature to the server's fingerprint, whatever the outcome
  of that sealing: the sealed and signed CSR when it succeeded, the empty text when it
  produced nothing.
\<close>

theorem submission_is_post_of_payload:
  "posts (effects w (snd (encrypt_and_send_to_server e c w))) =
     (case config_get e (server e) ''server_fingerprint'' of
        Inl err \<Rightarrow> []
      | Inr server_fingerprint \<Rightarrow>
          if server_fingerprint = [] then []
          else
            (case config_get e (server e) ''url'' of
               Inl err \<Rightarrow> []
             | Inr server_url \<Rightarrow>
                 [(server_url,
                   JObject
                     [(''csr'', JString (data (gpg_encrypt e (csr_public_bytes e c PEM)
                                                 server_fingerprint True))),
                      (''lifetime'', JString ''18''),
                      (''host'', (case environ_HOST e of None \<Rightarrow> JNull | Some h \<Rightarrow> JString h)),
                      (''type'', JString ''CREATE_CERTIFICATE'')])]))"
  by (auto simp add: encrypt_and_send_to_server_def encrypt_def echo_def emit_def effects_def
        Let_def posts_append split: sum.splits option.splits)

text \<open>
  The end-to-end scenario: for the example identity with no \<^verbatim>\<open>HOST\<close> set, the one submission
  goes to the configured URL with the sealed and signed CSR and \<^verbatim>\<open>host\<close> null.
\<close>

theorem submission_is_post_of_payload_witness:
  "ok (gpg_encrypt example_env (csr_public_bytes example_env example_csr PEM) ''BBBB'' True)
   \<and> posts (effects fresh_world
         (snd (encrypt_and_send_to_server example_env example_csr fresh_world))) =
       [(''https://ca.example.com/issue'',
         JObject
           [(''csr'', JString ''signed:BBBB:CERTIFICATE REQUEST''),
            (''lifetime'', JString ''18''),
            (''host'', JNull),
            (''type'', JString ''CREATE_CERTIFICATE'')])]"
  using submission_is_post_of_payload [of fresh_world example_env example_csr]
  by (simp add: config_get_def example_env_def env_of_record_def basic_interpolation_plain
        example_record_def)

text \<open>
  The value of \<^verbatim>\<open>encrypt_and_send_to_server\<close>: a call that completes returns \<^verbatim>\<open>None\<close>, whatever
  the server answered.
\<close>

lemma encrypt_and_send_to_server_value:
  "fst (encrypt_and_send_to_server e c w) = Inr v \<Longrightarrow> v = JNull"
  by (auto simp add: encrypt_and_send_to_server_def encrypt_def Let_def
        split: sum.splits option.splits if_splits)

text \<open>
  Claim C2 says that a successful exchange returns the server's parsed response to the
  caller. The code parses the response and prints its text, and then falls off the end of
  the function: for the example identity the server answers with a JSON object that holds
  a certificate, the parsed response is an object with the key \<^verbatim>\<open>cert\<close>, and the call returns
  \<^verbatim>\<open>None\<close>; so does \<^verbatim>\<open>run\<close>, which binds the value to \<^verbatim>\<open>cert\<close>.
\<close>

theorem submit_returns_none:
  \<open>requests_post example_env ''https://ca.example.com/issue''
     (JObject [(''csr'', JString ''signed:BBBB:CERTIFICATE REQUEST''),
               (''lifetime'', JString ''18''),
               (''host'', JNull),
               (''type'', JString ''CREATE_CERTIFICATE'')]) = Some ''{"cert": "CERT"}''
   \<and> response_json example_env ''{"cert": "CERT"}'' = Some (JObject [(''cert'', JString ''CERT'')])
   \<and> encrypt_and_send_to_server example_env example_csr fresh_world =
       (Inr JNull,
        fresh_world\<lparr>events :=
          [Echo ''Encrypting and Signing data...'',
           GpgEncrypt ''CERTIFICATE REQUEST'' ''BBBB'' True,
           HttpPost ''https://ca.example.com/issue''
             (JObject [(''csr'', JString ''signed:BBBB:CERTIFICATE REQUEST''),
                       (''lifetime'', JString ''18''),
                       (''host'', JNull),
                       (''type'', JString ''CREATE_CERTIFICATE'')]),
           Print ''{'cert': 'CERT'}'']\<rparr>)
   \<and> fst (run example_env fresh_world) = Inr JNull\<close>
  by (simp add: encrypt_and_send_to_server_def run_def get_key_or_generate_def generate_csr_def
        encrypt_def echo_def emit_def write_file_def sign_request_def
        rsa_generate_private_key_def config_get_def example_env_def env_of_record_def
        basic_interpolation_plain example_record_def fresh_world_def example_csr_def
        example_key_def Let_def)

section \<open>Key resolution\<close>

text \<open>
  Claim C3 says that in every call exactly one of the two effect sets occurs. It fails for
  a call that raises part-way: with no key file and an identity record without
  \<^verbatim>\<open>fingerprint\<close>, a key is generated and then \<^verbatim>\<open>config.get\<close> raises, so nothing is sealed or
  written and nothing was read: neither set has occurred.
\<close>

theorem key_resolution_effect_sets_counterexample:
  "effects fresh_world (snd (get_key_or_generate (env_without ''fingerprint'') fresh_world)) =
     [Echo ''Generating User Key'', GenerateKey 65537 4096]
   \<and> \<not> read_decrypt_occurs
         (effects fresh_world (snd (get_key_or_generate (env_without ''fingerprint'') fresh_world)))
   \<and> \<not> generate_seal_write_occurs
         (effects fresh_world (snd (get_key_or_generate (env_without ''fingerprint'') fresh_world)))"
  by (simp add: get_key_or_generate_effects config_get_def env_without_def env_of_record_def
        example_record_def fresh_world_def read_decrypt_occurs_def generate_seal_write_occurs_def)

text \<open>
  Claim C3, amended. The effects of every call come from one of the two sets and never
  from both. When the key file exists, it is read once and decrypted once, and there is no
  generation, no sealing and no write: the files are as before. When it does not exist, a
  keypair is generated once and nothing is read or decrypted; and when \<^verbatim>\<open>config.get\<close> returns
  a \<^verbatim>\<open>fingerprint\<close> that is not empty and returns the \<^verbatim>\<open>email\<close>, the encoded key is sealed
  once, without a signature, and the text of the sealing result is written once to the
  key path.
\<close>

theorem key_resolution_effects:
  "(\<forall>contents. files w (key_path e) = Some contents \<longrightarrow>
       reads (effects w (snd (get_key_or_generate e w))) = [key_path e]
     \<and> decrypts (effects w (snd (get_key_or_generate e w))) = [contents]
     \<and> generations (effects w (snd (get_key_or_generate e w))) = []
     \<and> seals (effects w (snd (get_key_or_generate e w))) = []
     \<and> writes (effects w (snd (get_key_or_generate e w))) = []
     \<and> files (snd (get_key_or_generate e w)) = files w)
   \<and> (files w (key_path e) = None \<longrightarrow>
       reads (effects w (snd (get_key_or_generate e w))) = []
     \<and> decrypts (effects w (snd (get_key_or_generate e w))) = []
     \<and> generations (effects w (snd (get_key_or_generate e w))) = [(65537, 4096)]
     \<and> (\<forall>fp em. config_get e (server e) ''fingerprint'' = Inr fp \<and> fp \<noteq> []
                \<and> config_get e (server e) ''email'' = Inr em \<longrightarrow>
          seals (effects w (snd (get_key_or_generate e w))) =
            [(private_bytes e (rsa_generate_private_key 65537 4096 (seed w))
                PEM TraditionalOpenSSL NoEncryption, fp, False)]
        \<and> writes (effects w (snd (get_key_or_generate e w))) =
            [(key_path e,
              data (gpg_encrypt e
                      (private_bytes e (rsa_generate_private_key 65537 4096 (seed w))
                         PEM TraditionalOpenSSL NoEncryption) fp False))]))"
  by (simp add: get_key_or_generate_effects get_key_or_generate_files
        split: sum.splits option.splits)

text \<open>
  Both cases at the example identity: with a sealed key file the read set occurs and the
  generate set does not; with no key file it is the other way round.
\<close>

theorem key_resolution_effects_witness:
  "read_decrypt_occurs
     (effects (world_with_key ''sealed:AAAA:RSA PRIVATE KEY'')
        (snd (get_key_or_generate example_env (world_with_key ''sealed:AAAA:RSA PRIVATE KEY''))))
   \<and> \<not> generate_seal_write_occurs
     (effects (world_with_key ''sealed:AAAA:RSA PRIVATE KEY'')
        (snd (get_key_or_generate example_env (world_with_key ''sealed:AAAA:RSA PRIVATE KEY''))))
   \<and> generate_seal_write_occurs
     (effects fresh_world (snd (get_key_or_generate example_env fresh_world)))
   \<and> \<not> read_decrypt_occurs
     (effects fresh_world (snd (get_key_or_generate example_env fresh_world)))"
  using key_resolution_effects [of "world_with_key ''sealed:AAAA:RSA PRIVATE KEY''" example_env]
    key_resolution_effects [of fresh_world example_env]
  by (simp add: read_decrypt_occurs_def generate_seal_write_occurs_def config_get_def
        example_env_def env_of_record_def basic_interpolation_plain example_record_def
        fresh_world_def world_with_key_def)

text \<open>
  Claim C6 says that a failed decryption of the key file makes key resolution fail with a
  key-decryption error of its own, distinct from the error for decrypted bytes that are
  not a private key. The code never looks at the outcome of \<^verbatim>\<open>decrypt_file\<close>: it hands
  the text of the result to \<^verbatim>\<open>load_pem_private_key\<close>. A key file that cannot be decrypted
  and a key file that decrypts to text that is no key end in the same exception.
\<close>

theorem decryption_failure_error_counterexample:
  "\<not> ok (gpg_decrypt_file example_env ''garbled'')
   \<and> fst (get_key_or_generate example_env (world_with_key ''garbled'')) = Inl PemValueError
   \<and> ok (gpg_decrypt_file example_env ''sealed:AAAA:not a key'')
   \<and> fst (get_key_or_generate example_env (world_with_key ''sealed:AAAA:not a key'')) = Inl PemValueError"
  by (simp add: get_key_or_generate_result example_env_def env_of_record_def world_with_key_def)

text \<open>
  Claim C6, amended. When the sealed key file exists and its decryption fails, the outcome
  of the decryption is not tested: the call returns what the PEM parser makes of the text
  of the decryption result, so it fails with the parser's error, the one raised for any
  text that is not a private key, whenever the parser rejects that text. No write occurs
  and the files are as before.
\<close>

theorem decryption_failure_unchecked:
  assumes "files w (key_path e) = Some contents"
    and "\<not> ok (gpg_decrypt_file e contents)"
  shows "fst (get_key_or_generate e w) =
           (case load_pem_private_key e (data (gpg_decrypt_file e contents)) of
              None \<Rightarrow> Inl PemValueError
            | Some key \<Rightarrow> Inr key)
       \<and> files (snd (get_key_or_generate e w)) = files w
       \<and> writes (effects w (snd (get_key_or_generate e w))) = []"
  using assms
  by (simp add: get_key_or_generate_result get_key_or_generate_files get_key_or_generate_effects)

theorem decryption_failure_unchecked_witness:
  "files (world_with_key ''garbled'') (key_path example_env) = Some ''garbled''
   \<and> \<not> ok (gpg_decrypt_file example_env ''garbled'')
   \<and> get_key_or_generate example_env (world_with_key ''garbled'') =
       (Inl PemValueError,
        (world_with_key ''garbled'')\<lparr>events :=
           [Echo ''Decrypting User Key...'',
            ReadFile ''/home/alice/.config/mtls/alice.key.gpg'',
            GpgDecrypt ''garbled'']\<rparr>)"
  using decryption_failure_unchecked [of "world_with_key ''garbled''" example_env "''garbled''"]
  by (simp add: get_key_or_generate_def echo_def emit_def Let_def example_env_def
        env_of_record_def world_with_key_def)

text \<open>
  Claim C7. Whenever the key path holds no file, key resolution first announces and
  performs one key generation with public exponent 65537 and key size 4096; the key it
  returns, when it returns, is that key; what is sealed is the key's encoding as PEM in
  the traditional OpenSSL format with no encryption; and the seed of randomness has moved
  on, so the material is drawn once.
\<close>

theorem generated_key_policy:
  assumes "files w (key_path e) = None"
  shows "take 2 (effects w (snd (get_key_or_generate e w))) =
           [Echo ''Generating User Key'', GenerateKey 65537 4096]
       \<and> generations (effects w (snd (get_key_or_generate e w))) = [(65537, 4096)]
       \<and> (\<forall>key. fst (get_key_or_generate e w) = Inr key \<longrightarrow>
             key = rsa_generate_private_key 65537 4096 (seed w)
           \<and> public_exponent key = 65537 \<and> key_size key = 4096)
       \<and> (\<forall>(d, recipient, sign) \<in> set (seals (effects w (snd (get_key_or_generate e w)))).
             d = private_bytes e (rsa_generate_private_key 65537 4096 (seed w))
                   PEM TraditionalOpenSSL NoEncryption)
       \<and> seed (snd (get_key_or_generate e w)) = Suc (seed w)"
  using assms
  by (auto simp add: get_key_or_generate_result get_key_or_generate_effects
        get_key_or_generate_seed rsa_generate_private_key_def split: sum.splits if_splits)

theorem generated_key_policy_witness:
  "files fresh_world (key_path example_env) = None
   \<and> fst (get_key_or_generate example_env fresh_world) = Inr (RSAPrivateKey 65537 4096 0)
   \<and> seals (effects fresh_world (snd (get_key_or_generate example_env fresh_world))) =
       [(private_bytes example_env (RSAPrivateKey 65537 4096 0) PEM TraditionalOpenSSL NoEncryption,
         ''AAAA'', False)]"
  using generated_key_policy [of fresh_world example_env]
  by (simp add: get_key_or_generate_result get_key_or_generate_effects config_get_def
        rsa_generate_private_key_def example_env_def env_of_record_def
        basic_interpolation_plain example_record_def fresh_world_def)

text \<open>
  Claim C9. When the sealed key file exists, a second call to key resolution, made in the
  world the first call leaves, returns what the first call returned: the same parse of
  the same decrypted text. Each call decrypts the same file contents, the files are as
  before after each call, and neither call writes.
\<close>

theorem resolution_idempotent:
  assumes "files w (key_path e) = Some contents"
  shows "fst (get_key_or_generate e (snd (get_key_or_generate e w))) = fst (get_key_or_generate e w)
       \<and> fst (get_key_or_generate e w) =
           (case load_pem_private_key e (data (gpg_decrypt_file e contents)) of
              None \<Rightarrow> Inl PemValueError
            | Some key \<Rightarrow> Inr key)
       \<and> decrypts (effects w (snd (get_key_or_generate e w))) = [contents]
       \<and> decrypts (effects (snd (get_key_or_generate e w))
                     (snd (get_key_or_generate e (snd (get_key_or_generate e w))))) = [contents]
       \<and> files (snd (get_key_or_generate e w)) = files w
       \<and> files (snd (get_key_or_generate e (snd (get_key_or_generate e w)))) = files w
       \<and> writes (effects w (snd (get_key_or_generate e w))) = []
       \<and> writes (effects (snd (get_key_or_generate e w))
                   (snd (get_key_or_generate e (snd (get_key_or_generate e w))))) = []"
proof -
  have f1: "files (snd (get_key_or_generate e w)) = files w"
    using assms by (simp add: get_key_or_generate_files)
  then have again: "files (snd (get_key_or_generate e w)) (key_path e) = Some contents"
    using assms by simp
  show ?thesis
    using assms again f1
    by (simp add: get_key_or_generate_result get_key_or_generate_files get_key_or_generate_effects)
qed

theorem resolution_idempotent_witness:
  "files (world_with_key ''sealed:AAAA:RSA PRIVATE KEY'') (key_path example_env) =
     Some ''sealed:AAAA:RSA PRIVATE KEY''
   \<and> fst (get_key_or_generate example_env (world_with_key ''sealed:AAAA:RSA PRIVATE KEY'')) =
       Inr (RSAPrivateKey 65537 4096 0)
   \<and> fst (get_key_or_generate example_env
            (snd (get_key_or_generate example_env (world_with_key ''sealed:AAAA:RSA PRIVATE KEY'')))) =
       Inr (RSAPrivateKey 65537 4096 0)"
  using resolution_idempotent
    [of "world_with_key ''sealed:AAAA:RSA PRIVATE KEY''" example_env "''sealed:AAAA:RSA PRIVATE KEY''"]
  by (simp add: example_env_def env_of_record_def world_with_key_def)

text \<open>
  Claim C10 says that on the generate path whatever the sealing returns is written to the
  key file and the keypair is returned. Between the sealing and the write the code looks
  up \<^verbatim>\<open>email\<close>, for the message it prints: with an identity record that has a \<^verbatim>\<open>fingerprint\<close>
  and no \<^verbatim>\<open>email\<close>, the key is generated and sealed, then \<^verbatim>\<open>config.get\<close> raises, so the
  sealing result is not written, no key file exists afterwards and no key is returned.
\<close>

theorem sealing_result_not_written_counterexample:
  "config_get (env_without ''email'') ''ca'' ''fingerprint'' = Inr ''AAAA''
   \<and> fst (get_key_or_generate (env_without ''email'') fresh_world) =
       Inl (NoOptionError ''email'' ''ca'')
   \<and> effects fresh_world (snd (get_key_or_generate (env_without ''email'') fresh_world)) =
       [Echo ''Generating User Key'',
        GenerateKey 65537 4096,
        GpgEncrypt ''RSA PRIVATE KEY'' ''AAAA'' False]
   \<and> files (snd (get_key_or_generate (env_without ''email'') fresh_world))
       ''/home/alice/.config/mtls/alice.key.gpg'' = None"
  by (simp add: get_key_or_generate_result get_key_or_generate_effects get_key_or_generate_files
        config_get_def env_without_def env_of_record_def basic_interpolation_plain
        example_record_def fresh_world_def)

text \<open>
  Claim C10, amended. On the generate path, when \<^verbatim>\<open>config.get\<close> returns a \<^verbatim>\<open>fingerprint\<close> that
  is not empty and returns the \<^verbatim>\<open>email\<close>, the outcome of sealing is not tested: whatever the
  \<^verbatim>\<open>ok\<close> flag of the result, its text is written to the key path and the generated key is
  returned. The witness seals to a fingerprint the capability cannot resolve: the result
  is not ok and empty, the key file is written empty, and the key is returned.
\<close>

theorem sealing_outcome_unchecked:
  assumes "files w (key_path e) = None"
    and "config_get e (server e) ''fingerprint'' = Inr fp"
    and "fp \<noteq> []"
    and "config_get e (server e) ''email'' = Inr em"
  shows "fst (get_key_or_generate e w) = Inr (rsa_generate_private_key 65537 4096 (seed w))
       \<and> files (snd (get_key_or_generate e w)) =
           (files w)(key_path e \<mapsto>
              data (gpg_encrypt e
                      (private_bytes e (rsa_generate_private_key 65537 4096 (seed w))
                         PEM TraditionalOpenSSL NoEncryption) fp False))
       \<and> writes (effects w (snd (get_key_or_generate e w))) =
           [(key_path e,
             data (gpg_encrypt e
                     (private_bytes e (rsa_generate_private_key 65537 4096 (seed w))
                        PEM TraditionalOpenSSL NoEncryption) fp False))]"
  using assms
  by (simp add: get_key_or_generate_result get_key_or_generate_files get_key_or_generate_effects)

theorem sealing_outcome_unchecked_witness:
  "files fresh_world (key_path (env_with ''fingerprint'' ''ZZZZ'')) = None
   \<and> config_get (env_with ''fingerprint'' ''ZZZZ'') (server (env_with ''fingerprint'' ''ZZZZ''))
       ''fingerprint'' = Inr ''ZZZZ''
   \<and> config_get (env_with ''fingerprint'' ''ZZZZ'') (server (env_with ''fingerprint'' ''ZZZZ''))
       ''email'' = Inr ''alice@acme.com''
   \<and> \<not> ok (gpg_encrypt (env_with ''fingerprint'' ''ZZZZ'') ''RSA PRIVATE KEY'' ''ZZZZ'' False)
   \<and> fst (get_key_or_generate (env_with ''fingerprint'' ''ZZZZ'') fresh_world) =
       Inr (RSAPrivateKey 65537 4096 0)
   \<and> files (snd (get_key_or_generate (env_with ''fingerprint'' ''ZZZZ'') fresh_world))
       ''/home/alice/.config/mtls/alice.key.gpg'' = Some ''''"
  using sealing_outcome_unchecked
    [of fresh_world "env_with ''fingerprint'' ''ZZZZ''" "''ZZZZ''" "''alice@acme.com''"]
  by (simp add: config_get_def env_with_def env_of_record_def basic_interpolation_plain
        example_record_def fresh_world_def rsa_generate_private_key_def)

section \<open>Building the certificate signing request\<close>

text \<open>
  Claim C4. For an identity record that supplies all five subject attributes, that is,
  \<^verbatim>\<open>config.get\<close> returns a value for each, every request that \<^verbatim>\<open>generate_csr\<close> returns has as
  its subject the five attributes in the order country, state, locality, organization
  name, common name, each with the value \<^verbatim>\<open>config.get\<close> returned for it; it is signed with
  the given key and SHA-256, and that signing is the only one. A request is returned
  whenever the library accepts the five values.
\<close>

theorem csr_subject_in_fixed_order:
  assumes "config_get e (server e) ''country'' = Inr country"
    and "config_get e (server e) ''state'' = Inr state"
    and "config_get e (server e) ''locality'' = Inr locality"
    and "config_get e (server e) ''organization_name'' = Inr organization_name"
    and "config_get e (server e) ''common_name'' = Inr common_name"
  shows "(\<forall>c w'. generate_csr e key w = (Inr c, w') \<longrightarrow>
            subject c =
              [NameAttribute COUNTRY_NAME country,
               NameAttribute STATE_OR_PROVINCE_NAME state,
               NameAttribute LOCALITY_NAME locality,
               NameAttribute ORGANIZATION_NAME organization_name,
               NameAttribute COMMON_NAME common_name]
          \<and> signing_key c = key
          \<and> digest c = SHA256
          \<and> signings (effects w w') = [(subject c, key, SHA256)])
       \<and> (name_attribute_ok e COUNTRY_NAME country
          \<and> name_attribute_ok e STATE_OR_PROVINCE_NAME state
          \<and> name_attribute_ok e LOCALITY_NAME locality
          \<and> name_attribute_ok e ORGANIZATION_NAME organization_name
          \<and> name_attribute_ok e COMMON_NAME common_name \<longrightarrow>
          (\<exists>c. fst (generate_csr e key w) = Inr c))"
  using assms
  by (auto simp add: generate_csr_def sign_request_def emit_def effects_def
        split: if_splits)

theorem csr_subject_in_fixed_order_witness:
  "example_record ''country'' = Some ''US''
   \<and> example_record ''state'' = Some ''CA''
   \<and> example_record ''locality'' = Some ''SF''
   \<and> example_record ''organization_name'' = Some ''Acme''
   \<and> example_record ''common_name'' = Some ''alice@acme.com''
   \<and> generate_csr example_env example_key fresh_world =
       (Inr example_csr,
        fresh_world\<lparr>events := [SignCsr (subject example_csr) example_key SHA256]\<rparr>)
   \<and> subject example_csr =
       [NameAttribute COUNTRY_NAME ''US'',
        NameAttribute STATE_OR_PROVINCE_NAME ''CA'',
        NameAttribute LOCALITY_NAME ''SF'',
        NameAttribute ORGANIZATION_NAME ''Acme'',
        NameAttribute COMMON_NAME ''alice@acme.com'']
   \<and> signing_key example_csr = example_key
   \<and> digest example_csr = SHA256"
  using csr_subject_in_fixed_order [of example_env "''US''" "''CA''" "''SF''"
      "''Acme''" "''alice@acme.com''" example_key fresh_world]
  by (simp add: generate_csr_def config_get_def sign_request_def emit_def
        example_env_def env_of_record_def basic_interpolation_plain example_record_def
        example_csr_def fresh_world_def)

lemma first_error_Cons:
  "first_error (r # rs) = (case r of Inl err \<Rightarrow> Some err | Inr v \<Rightarrow> first_error rs)"
  by (cases r) simp_all

lemma first_error_exists: "Inl err \<in> set rs \<Longrightarrow> \<exists>err'. first_error rs = Some err'"
  by (induction rs rule: first_error.induct) auto

lemma first_error_mem: "first_error rs = Some err \<Longrightarrow> Inl err \<in> set rs"
  by (induction rs rule: first_error.induct) auto

text \<open>The first lookup of a subject attribute that raises ends \<^verbatim>\<open>generate_csr\<close>.\<close>

lemma generate_csr_lookup_error:
  "first_error (map (config_get e (server e)) subject_attributes) = Some err \<Longrightarrow>
     generate_csr e key w = (Inl err, w)"
  by (simp add: generate_csr_def subject_attributes_def first_error_Cons split: sum.splits)

text \<open>
  Claim C5 says that when a subject attribute is absent, CSR building fails with an error
  that names the absent field. The lookups are made in order and the first one that raises
  ends the call: when the stored text of \<^verbatim>\<open>country\<close> is \<^verbatim>\<open>5%\<close> and \<^verbatim>\<open>state\<close> is absent, the
  lookup of \<^verbatim>\<open>country\<close> raises \<^verbatim>\<open>InterpolationSyntaxError\<close>, which names \<^verbatim>\<open>country\<close>, a field
  that is present, and the absent \<^verbatim>\<open>state\<close> is never looked up.
\<close>

theorem missing_attribute_error_names_present_field_counterexample:
  "(example_record(''country'' \<mapsto> ''5%'', ''state'' := None)) ''state'' = None
   \<and> (example_record(''country'' \<mapsto> ''5%'', ''state'' := None)) ''country'' = Some ''5%''
   \<and> generate_csr (env_of_record (example_record(''country'' \<mapsto> ''5%'', ''state'' := None)))
        example_key fresh_world =
       (Inl (InterpolationSyntaxError ''country'' ''ca''), fresh_world)"
  by (simp add: generate_csr_def config_get_def env_of_record_def basic_interpolation_def
        interpolate_some.simps example_record_def)

text \<open>
  Claim C5, amended. For an identity record that lacks one of the five subject
  attributes, \<^verbatim>\<open>generate_csr\<close> fails with the exception of the first of the five lookups
  (country, state, locality, organization name, common name, in this order) that
  raises; the world is as it was, so nothing has been signed, and no request is returned.
  When every attribute that is present is looked up without an interpolation error, that
  exception is \<^verbatim>\<open>NoOptionError\<close> carrying the name of an absent attribute and the section.
\<close>

theorem missing_attribute_fails_before_signing:
  assumes "config e (server e) = Some idrec"
    and "\<exists>a \<in> set subject_attributes. idrec a = None"
  shows "(\<exists>err. first_error (map (config_get e (server e)) subject_attributes) = Some err
              \<and> generate_csr e key w = (Inl err, w))
       \<and> signings (effects w (snd (generate_csr e key w))) = []
       \<and> ((\<forall>a \<in> set subject_attributes. \<forall>stored. idrec a = Some stored \<longrightarrow>
               (\<exists>v. config_get e (server e) a = Inr v)) \<longrightarrow>
           (\<exists>a \<in> set subject_attributes.
               idrec a = None
             \<and> generate_csr e key w = (Inl (NoOptionError a (server e)), w)))"
proof -
  have absent: "config_get e (server e) a = Inl (NoOptionError a (server e))"
    if "idrec a = None" for a
    using that assms(1) by (simp add: config_get_def)
  from assms(2) obtain a where a: "a \<in> set subject_attributes" "idrec a = None"
    by blast
  have "Inl (NoOptionError a (server e)) \<in> set (map (config_get e (server e)) subject_attributes)"
    using a absent [of a] by (metis image_eqI list.set_map)
  then obtain err where err: "first_error (map (config_get e (server e)) subject_attributes) = Some err"
    using first_error_exists by blast
  then have fails: "generate_csr e key w = (Inl err, w)"
    by (rule generate_csr_lookup_error)
  have first: "\<exists>err. first_error (map (config_get e (server e)) subject_attributes) = Some err
              \<and> generate_csr e key w = (Inl err, w)"
    using err fails by blast
  have unsigned: "signings (effects w (snd (generate_csr e key w))) = []"
    using fails by (simp add: effects_def)
  have named: "(\<forall>a \<in> set subject_attributes. \<forall>stored. idrec a = Some stored \<longrightarrow>
               (\<exists>v. config_get e (server e) a = Inr v)) \<longrightarrow>
           (\<exists>a \<in> set subject_attributes.
               idrec a = None
             \<and> generate_csr e key w = (Inl (NoOptionError a (server e)), w))"
  proof
    assume ok: "\<forall>a \<in> set subject_attributes. \<forall>stored. idrec a = Some stored \<longrightarrow>
               (\<exists>v. config_get e (server e) a = Inr v)"
    from err have "Inl err \<in> set (map (config_get e (server e)) subject_attributes)"
      by (rule first_error_mem)
    then obtain b where b: "b \<in> set subject_attributes" "config_get e (server e) b = Inl err"
      by auto
    have "idrec b = None"
    proof (cases "idrec b")
      case None
      then show ?thesis .
    next
      case (Some stored)
      with ok b(1) obtain v where "config_get e (server e) b = Inr v" by blast
      with b(2) show ?thesis by simp
    qed
    moreover from this have "err = NoOptionError b (server e)"
      using absent [of b] b(2) by simp
    ultimately show "\<exists>a \<in> set subject_attributes.
               idrec a = None
             \<and> generate_csr e key w = (Inl (NoOptionError a (server e)), w)"
      using b(1) fails by blast
  qed
  from first unsigned named show ?thesis by blast
qed

theorem missing_attribute_fails_before_signing_witness:
  "(example_record(''locality'' := None)) ''locality'' = None
   \<and> generate_csr (env_without ''locality'') example_key fresh_world =
       (Inl (NoOptionError ''locality'' ''ca''), fresh_world)"
  using missing_attribute_fails_before_signing
    [of "env_without ''locality''" "example_record(''locality'' := None)" example_key fresh_world]
  by (simp add: generate_csr_def config_get_def env_without_def env_of_record_def
        basic_interpolation_plain example_record_def subject_attributes_def)

section \<open>A whole run\<close>

lemma generate_csr_cases:
  "(\<exists>err. generate_csr e key w = (Inl err, w))
   \<or> (\<exists>attrs. generate_csr e key w =
         (Inr (sign_request attrs key SHA256), emit (SignCsr attrs key SHA256) w))"
  by (auto simp add: generate_csr_def split: sum.splits)

lemma encrypt_and_send_to_server_effects:
  "effects w (snd (encrypt_and_send_to_server e c w)) =
     (case config_get e (server e) ''server_fingerprint'' of
        Inl err \<Rightarrow> []
      | Inr fp \<Rightarrow>
          Echo ''Encrypting and Signing data...'' #
          (if fp = [] then []
           else
          GpgEncrypt (csr_public_bytes e c PEM) fp True #
          (case config_get e (server e) ''url'' of
             Inl err \<Rightarrow> []
           | Inr url \<Rightarrow>
               HttpPost url
                 (JObject
                    [(''csr'', JString (data (gpg_encrypt e (csr_public_bytes e c PEM) fp True))),
                     (''lifetime'', JString ''18''),
                     (''host'', (case environ_HOST e of None \<Rightarrow> JNull | Some h \<Rightarrow> JString h)),
                     (''type'', JString ''CREATE_CERTIFICATE'')]) #
               (case requests_post e url
                       (JObject
                          [(''csr'', JString (data (gpg_encrypt e (csr_public_bytes e c PEM) fp True))),
                           (''lifetime'', JString ''18''),
                           (''host'', (case environ_HOST e of None \<Rightarrow> JNull | Some h \<Rightarrow> JString h)),
                           (''type'', JString ''CREATE_CERTIFICATE'')]) of
                  None \<Rightarrow> []
                | Some body \<Rightarrow>
                    (case response_json e body of
                       None \<Rightarrow> []
                     | Some response \<Rightarrow> [Print (py_str e response)])))))"
  by (auto simp add: encrypt_and_send_to_server_def encrypt_def echo_def emit_def effects_def
        Let_def split: sum.splits option.splits)

lemma encrypt_and_send_to_server_events:
  "events (snd (encrypt_and_send_to_server e c w)) =
     events w @ effects w (snd (encrypt_and_send_to_server e c w))"
  by (auto simp add: encrypt_and_send_to_server_def encrypt_def echo_def emit_def effects_def
        Let_def split: sum.splits option.splits)

lemma effects_trans:
  "events w1 = events w @ a \<Longrightarrow> events w2 = events w1 @ b \<Longrightarrow> effects w w2 = a @ b"
  by (simp add: effects_def)

text \<open>The log of a run is the log of its stages, one after the other.\<close>

lemma run_effects:
  "effects w (snd (run e w)) =
     effects w (snd (get_key_or_generate e w)) @
     (case fst (get_key_or_generate e w) of
        Inl err \<Rightarrow> []
      | Inr key \<Rightarrow>
          (case fst (generate_csr e key (snd (get_key_or_generate e w))) of
             Inl err \<Rightarrow> []
           | Inr c \<Rightarrow>
               SignCsr (subject c) key SHA256 #
               effects (emit (SignCsr (subject c) key SHA256) (snd (get_key_or_generate e w)))
                 (snd (encrypt_and_send_to_server e c
                    (emit (SignCsr (subject c) key SHA256) (snd (get_key_or_generate e w)))))))"
proof (cases "get_key_or_generate e w")
  case (Pair r1 w1)
  have ev1: "events w1 = events w @ effects w w1"
    using get_key_or_generate_events [of e w] Pair by simp
  show ?thesis
  proof (cases r1)
    case (Inl err)
    then show ?thesis using Pair by (simp add: run_def)
  next
    case (Inr key)
    from generate_csr_cases [of e key w1] show ?thesis
    proof
      assume "\<exists>err. generate_csr e key w1 = (Inl err, w1)"
      then obtain err where g: "generate_csr e key w1 = (Inl err, w1)" ..
      show ?thesis using Pair Inr g ev1 by (simp add: run_def)
    next
      assume "\<exists>attrs. generate_csr e key w1 =
         (Inr (sign_request attrs key SHA256), emit (SignCsr attrs key SHA256) w1)"
      then obtain attrs where g: "generate_csr e key w1 =
         (Inr (sign_request attrs key SHA256), emit (SignCsr attrs key SHA256) w1)" ..
      let ?c = "sign_request attrs key SHA256"
      let ?w2 = "emit (SignCsr attrs key SHA256) w1"
      have sub: "subject ?c = attrs" by (simp add: sign_request_def)
      have ev2: "events ?w2 = events w @ (effects w w1 @ [SignCsr attrs key SHA256])"
        using ev1 by (simp add: emit_def)
      have ev3: "events (snd (encrypt_and_send_to_server e ?c ?w2)) =
          events ?w2 @ effects ?w2 (snd (encrypt_and_send_to_server e ?c ?w2))"
        by (rule encrypt_and_send_to_server_events)
      have "effects w (snd (encrypt_and_send_to_server e ?c ?w2)) =
          (effects w w1 @ [SignCsr attrs key SHA256]) @
          effects ?w2 (snd (encrypt_and_send_to_server e ?c ?w2))"
        using ev2 ev3 by (rule effects_trans)
      moreover have "snd (run e w) = snd (encrypt_and_send_to_server e ?c ?w2)"
        using Pair Inr g by (simp add: run_def split: prod.splits sum.splits)
      ultimately show ?thesis using Pair Inr g sub by simp
    qed
  qed
qed

lemma generate_csr_signed:
  "fst (generate_csr e key w) = Inr c \<Longrightarrow> signing_key c = key \<and> digest c = SHA256"
  by (auto simp add: generate_csr_def sign_request_def split: sum.splits)

text \<open>
  Claim C8. In every run the sealing capability is called at most twice: at most once
  without a signature, and then on the PEM encoding of the generated key with the user's
  own fingerprint as recipient; at most once with a signature, and then on the PEM text
  of a request this run has signed, with the server's fingerprint as recipient. Every
  write goes to the key path and holds the text of an earlier seal made without a
  signature; every submission carries the text of an earlier seal made with a signature.
\<close>

theorem sealing_roles:
  "length (seals (effects w (snd (run e w)))) \<le> 2
   \<and> length (filter (\<lambda>(d, recipient, sign). sign) (seals (effects w (snd (run e w))))) \<le> 1
   \<and> length (filter (\<lambda>(d, recipient, sign). \<not> sign) (seals (effects w (snd (run e w))))) \<le> 1
   \<and> (\<forall>(d, recipient, sign) \<in> set (seals (effects w (snd (run e w)))).
         if sign
         then config_get e (server e) ''server_fingerprint'' = Inr recipient
            \<and> (\<exists>c. d = csr_public_bytes e c PEM
                   \<and> (subject c, signing_key c, digest c) \<in> set (signings (effects w (snd (run e w)))))
         else config_get e (server e) ''fingerprint'' = Inr recipient
            \<and> d = private_bytes e (rsa_generate_private_key 65537 4096 (seed w))
                    PEM TraditionalOpenSSL NoEncryption)
   \<and> (\<forall>(path, contents) \<in> set (writes (effects w (snd (run e w)))). path = key_path e)
   \<and> sealed_before_release e [] (effects w (snd (run e w)))"
proof -
  let ?tr = "effects w (snd (run e w))"
  note unfold = run_effects get_key_or_generate_effects get_key_or_generate_result
    encrypt_and_send_to_server_effects
  have count: "length (seals ?tr) \<le> 2"
    unfolding unfold by (simp add: seals_append split: sum.splits option.splits)
  have signed: "length (filter (\<lambda>(d, recipient, sign). sign) (seals ?tr)) \<le> 1"
    unfolding unfold by (simp add: seals_append split: sum.splits option.splits)
  have unsigned: "length (filter (\<lambda>(d, recipient, sign). \<not> sign) (seals ?tr)) \<le> 1"
    unfolding unfold by (simp add: seals_append split: sum.splits option.splits)
  have roles: "\<forall>(d, recipient, sign) \<in> set (seals ?tr).
         if sign
         then config_get e (server e) ''server_fingerprint'' = Inr recipient
            \<and> (\<exists>c. d = csr_public_bytes e c PEM
                   \<and> (subject c, signing_key c, digest c) \<in> set (signings ?tr))
         else config_get e (server e) ''fingerprint'' = Inr recipient
            \<and> d = private_bytes e (rsa_generate_private_key 65537 4096 (seed w))
                    PEM TraditionalOpenSSL NoEncryption"
    unfolding unfold
    by (auto simp add: seals_append signings_append split: sum.splits option.splits
        dest!: generate_csr_signed)
  have paths: "\<forall>(path, contents) \<in> set (writes ?tr). path = key_path e"
    unfolding unfold by (simp add: writes_append split: sum.splits option.splits)
  have order: "sealed_before_release e [] ?tr"
    unfolding unfold by (simp add: payload_csr_def split: sum.splits option.splits)
  from count signed unsigned roles paths order show ?thesis by blast
qed

theorem sealing_roles_witness:
  \<open>effects fresh_world (snd (run example_env fresh_world)) =
     [Echo ''Generating User Key'',
      GenerateKey 65537 4096,
      GpgEncrypt ''RSA PRIVATE KEY'' ''AAAA'' False,
      Echo ''Encrypting file to alice@acme.com'',
      WriteFile ''/home/alice/.config/mtls/alice.key.gpg'' ''sealed:AAAA:RSA PRIVATE KEY'',
      SignCsr (subject example_csr) example_key SHA256,
      Echo ''Encrypting and Signing data...'',
      GpgEncrypt ''CERTIFICATE REQUEST'' ''BBBB'' True,
      HttpPost ''https://ca.example.com/issue''
        (JObject [(''csr'', JString ''signed:BBBB:CERTIFICATE REQUEST''),
                  (''lifetime'', JString ''18''),
                  (''host'', JNull),
                  (''type'', JString ''CREATE_CERTIFICATE'')]),
      Print ''{'cert': 'CERT'}'']
   \<and> sealed_before_release example_env [] (effects fresh_world (snd (run example_env fresh_world)))
   \<and> seals (effects fresh_world (snd (run example_env fresh_world))) =
       [(''RSA PRIVATE KEY'', ''AAAA'', False), (''CERTIFICATE REQUEST'', ''BBBB'', True)]\<close>
  using sealing_roles [of fresh_world example_env]
  by (simp add: run_def get_key_or_generate_def generate_csr_def encrypt_and_send_to_server_def
        encrypt_def echo_def emit_def write_file_def config_get_def sign_request_def
        rsa_generate_private_key_def effects_def payload_csr_def
        example_env_def env_of_record_def basic_interpolation_plain example_record_def
        fresh_world_def example_csr_def example_key_def Let_def)

end
